theory Spec2Isabelle
  imports Complex_Main
begin

section \<open>Values\<close>

text \<open>
  The plugin is JavaScript and works on values parsed from JSON. A slot that the provider
  fills with a number holds, once read by the code, one of: \<open>undefined\<close> (the key is
  missing), \<open>null\<close>, a number, or \<open>NaN\<close> (the result of arithmetic on
  \<open>undefined\<close>). A finite double is read as the real number it denotes; the infinities
  are not part of this model. The unit conversions, one operation each, are read over the
  reals. The distance is a chain of operations whose result depends on how each of them
  rounds: there the rounding is a parameter of the model.
\<close>

datatype jsnum = Undefined | Null | NaN | Num real

text \<open>\<open>ToNumber\<close> of ECMAScript on these values: \<open>undefined\<close> becomes \<open>NaN\<close>, \<open>null\<close> becomes 0.\<close>

fun ToNumber :: "jsnum \<Rightarrow> jsnum" where
  "ToNumber Undefined = NaN"
| "ToNumber Null = Num 0"
| "ToNumber NaN = NaN"
| "ToNumber (Num x) = Num x"

text \<open>A unary and a binary numeric operator: the operands go through \<open>ToNumber\<close>, and
  \<open>NaN\<close> is absorbing.\<close>

definition js_op1 :: "(real \<Rightarrow> real) \<Rightarrow> jsnum \<Rightarrow> jsnum" where
  "js_op1 f a = (case ToNumber a of Num x \<Rightarrow> Num (f x) | _ \<Rightarrow> NaN)"

definition js_op2 :: "(real \<Rightarrow> real \<Rightarrow> real) \<Rightarrow> jsnum \<Rightarrow> jsnum \<Rightarrow> jsnum" where
  "js_op2 f a b =
     (case ToNumber a of
        Num x \<Rightarrow> (case ToNumber b of Num y \<Rightarrow> Num (f x y) | _ \<Rightarrow> NaN)
      | _ \<Rightarrow> NaN)"

definition js_times :: "jsnum \<Rightarrow> jsnum \<Rightarrow> jsnum" where
  "js_times = js_op2 (\<lambda>x y. x * y)"

definition js_plus :: "jsnum \<Rightarrow> jsnum \<Rightarrow> jsnum" where
  "js_plus = js_op2 (\<lambda>x y. x + y)"

text \<open>The relational operators (greater, less-or-equal): false as soon as an operand is \<open>NaN\<close>.\<close>

definition js_rel :: "(real \<Rightarrow> real \<Rightarrow> bool) \<Rightarrow> jsnum \<Rightarrow> jsnum \<Rightarrow> bool" where
  "js_rel r a b =
     (case ToNumber a of
        Num x \<Rightarrow> (case ToNumber b of Num y \<Rightarrow> r x y | _ \<Rightarrow> False)
      | _ \<Rightarrow> False)"

definition js_gt :: "jsnum \<Rightarrow> jsnum \<Rightarrow> bool" where
  "js_gt = js_rel (\<lambda>x y. x > y)"

definition js_le :: "jsnum \<Rightarrow> jsnum \<Rightarrow> bool" where
  "js_le = js_rel (\<lambda>x y. x \<le> y)"

text \<open>Loose equality \<open>==\<close>: \<open>null\<close> and \<open>undefined\<close> equal each other and nothing else,
  \<open>NaN\<close> equals nothing, not even itself.\<close>

fun js_eq :: "jsnum \<Rightarrow> jsnum \<Rightarrow> bool" where
  "js_eq Undefined b = (b = Undefined \<or> b = Null)"
| "js_eq Null b = (b = Undefined \<or> b = Null)"
| "js_eq NaN b = False"
| "js_eq (Num x) b = (b = Num x)"

section \<open>Unit conversions\<close>

definition kilometersPerHourToMetersPerSecond :: "jsnum \<Rightarrow> jsnum" where
  "kilometersPerHourToMetersPerSecond value =
     (if value = Null then Null else js_times value (Num 0.2777777777777778))"

definition degreesToRadians :: "jsnum \<Rightarrow> jsnum" where
  "degreesToRadians value =
     (if value = Null then Null else js_times value (Num 0.0174533))"

definition celsiusToKelvin :: "jsnum \<Rightarrow> jsnum" where
  "celsiusToKelvin value =
     (if value = Null then Null else js_plus value (Num 273.15))"

section \<open>The arithmetic of the runtime\<close>

text \<open>
  ECMAScript fixes how \<open>+\<close>, \<open>-\<close>, \<open>*\<close> and \<open>/\<close> round (to the nearest double, ties
  to even) and which double \<open>Math.PI\<close> is; it leaves the accuracy of \<open>Math.sin\<close>,
  \<open>Math.cos\<close> and \<open>Math.acos\<close> to the implementation. The distance takes all of them
  from a runtime. \<open>rounding\<close> maps the exact result of an operation, and the value of a
  decimal literal, to the double that stands for it.
\<close>

record runtime =
  rounding :: "real \<Rightarrow> real"
  PI :: real
  sine :: "real \<Rightarrow> real"
  cosine :: "real \<Rightarrow> real"
  arccosine :: "real \<Rightarrow> real"

definition fl_times :: "runtime \<Rightarrow> jsnum \<Rightarrow> jsnum \<Rightarrow> jsnum" where
  "fl_times rt = js_op2 (\<lambda>x y. rounding rt (x * y))"

definition fl_plus :: "runtime \<Rightarrow> jsnum \<Rightarrow> jsnum \<Rightarrow> jsnum" where
  "fl_plus rt = js_op2 (\<lambda>x y. rounding rt (x + y))"

definition fl_minus :: "runtime \<Rightarrow> jsnum \<Rightarrow> jsnum \<Rightarrow> jsnum" where
  "fl_minus rt = js_op2 (\<lambda>x y. rounding rt (x - y))"

text \<open>Division only ever has a non-zero constant as divisor in this program (\<open>180\<close> and
  \<open>Math.PI\<close>).\<close>

definition fl_divide :: "runtime \<Rightarrow> jsnum \<Rightarrow> real \<Rightarrow> jsnum" where
  "fl_divide rt a c = js_op1 (\<lambda>x. rounding rt (x / c)) a"

definition Math_PI :: "runtime \<Rightarrow> jsnum" where
  "Math_PI rt = Num (PI rt)"

definition Math_sin :: "runtime \<Rightarrow> jsnum \<Rightarrow> jsnum" where
  "Math_sin rt = js_op1 (sine rt)"

definition Math_cos :: "runtime \<Rightarrow> jsnum \<Rightarrow> jsnum" where
  "Math_cos rt = js_op1 (cosine rt)"

text \<open>\<open>Math.acos\<close> is \<open>NaN\<close> outside \<open>[-1, 1]\<close> in every runtime.\<close>

definition Math_acos :: "runtime \<Rightarrow> jsnum \<Rightarrow> jsnum" where
  "Math_acos rt a =
     (case ToNumber a of
        Num d \<Rightarrow> (if - 1 \<le> d \<and> d \<le> 1 then Num (arccosine rt d) else NaN)
      | _ \<Rightarrow> NaN)"

section \<open>Distance\<close>

definition calculateDistance ::
  "runtime \<Rightarrow> jsnum \<Rightarrow> jsnum \<Rightarrow> jsnum \<Rightarrow> jsnum \<Rightarrow> jsnum" where
  "calculateDistance rt lat1 lon1 lat2 lon2 =
     (if js_eq lat1 lat2 \<and> js_eq lon1 lon2 then Num 0
      else
        let radlat1 = fl_divide rt (fl_times rt (Math_PI rt) lat1) 180;
            radlat2 = fl_divide rt (fl_times rt (Math_PI rt) lat2) 180;
            theta = fl_minus rt lon1 lon2;
            radtheta = fl_divide rt (fl_times rt (Math_PI rt) theta) 180;
            dist = fl_plus rt (fl_times rt (Math_sin rt radlat1) (Math_sin rt radlat2))
                     (fl_times rt (fl_times rt (Math_cos rt radlat1) (Math_cos rt radlat2))
                        (Math_cos rt radtheta));
            dist = (if js_gt dist (Num 1) then Num 1 else dist);
            dist = Math_acos rt dist;
            dist = fl_divide rt (fl_times rt dist (Num 180)) (PI rt);
            dist = fl_times rt (fl_times rt dist (Num 60)) (Num (rounding rt 1.1515));
            dist = fl_times rt dist (Num (rounding rt 0.8684))
        in dist)"

section \<open>Two runtimes\<close>

text \<open>The arithmetic of the reals: nothing is rounded.\<close>

definition exact_arithmetic :: runtime where
  "exact_arithmetic =
     \<lparr>rounding = (\<lambda>x. x), PI = pi, sine = sin, cosine = cos, arccosine = arccos\<rparr>"

text \<open>
  The arithmetic of doubles. \<open>binary64\<close> rounds a real to the nearest number with a
  significand of 53 bits, ties to the even significand; below \<open>2\<^sup>-\<^sup>1\<^sup>0\<^sup>2\<^sup>2\<close> the spacing stays
  that of the subnormal numbers. Beyond the largest double the result would be infinite,
  which is outside the model. \<open>Math.sin\<close>, \<open>Math.cos\<close> and \<open>Math.acos\<close> are taken
  correctly rounded, and \<open>Math.PI\<close> is the double \<open>0x1.921fb54442d18p+1\<close>.
\<close>

definition pow2 :: "int \<Rightarrow> real" where
  "pow2 e = (if 0 \<le> e then 2 ^ nat e else 1 / 2 ^ nat (- e))"

definition rne :: "real \<Rightarrow> int" where
  "rne y =
     (let f = \<lfloor>y\<rfloor>
      in if y - of_int f < 1 / 2 then f
         else if 1 / 2 < y - of_int f then f + 1
         else if even f then f else f + 1)"

definition binary64 :: "real \<Rightarrow> real" where
  "binary64 x =
     (if x = 0 then 0
      else
        let e = max \<lfloor>log 2 \<bar>x\<bar>\<rfloor> (- 1022);
            q = pow2 (e - 52)
        in of_int (rne (x / q)) * q)"

definition double_arithmetic :: runtime where
  "double_arithmetic =
     \<lparr>rounding = binary64, PI = 884279719003555 / 281474976710656,
      sine = (\<lambda>x. binary64 (sin x)), cosine = (\<lambda>x. binary64 (cos x)),
      arccosine = (\<lambda>x. binary64 (arccos x))\<rparr>"

section \<open>Strings and published values\<close>

text \<open>
  A string is a list of code units below 256. \<open>String.prototype.toLowerCase\<close> maps the
  upper-case letters of that range (A to Z, and the Latin-1 capitals \<open>0xC0\<close> to \<open>0xDE\<close>
  without the multiplication sign \<open>0xD7\<close>) to the letter 32 places further, and leaves
  every other code unit alone.
\<close>

definition isUpper :: "char \<Rightarrow> bool" where
  "isUpper c =
     (let n = (of_char c :: nat)
      in (65 \<le> n \<and> n \<le> 90) \<or> (192 \<le> n \<and> n \<le> 214) \<or> (216 \<le> n \<and> n \<le> 222))"

definition toLower :: "char \<Rightarrow> char" where
  "toLower c = (if isUpper c then char_of ((of_char c :: nat) + 32) else c)"

text \<open>A value that the code hands on without looking into it: a number slot, a string, or an
  object given by its properties in order.\<close>

datatype jsval = Prim jsnum | Str string | Obj "(string \<times> jsval) list"

datatype error = TypeError

text \<open>Calling \<open>.toLowerCase()\<close> on a value: a \<open>TypeError\<close> unless the value is a string.\<close>

definition toLowerCase :: "jsval \<Rightarrow> error + string" where
  "toLowerCase v = (case v of Str s \<Rightarrow> Inr (map toLower s) | _ \<Rightarrow> Inl TypeError)"

section \<open>The provider's documents\<close>

text \<open>
  Objects follow the provider's schema. A slot that should hold an object is an \<open>option\<close>:
  \<open>None\<close> stands for \<open>undefined\<close> or \<open>null\<close>, which are both falsy and both raise a
  \<open>TypeError\<close> when a property is read from them.
\<close>

record 'a with_value =
  value' :: 'a

type_synonym quantity = "jsnum with_value"

record geometry =
  coordinates :: "jsnum list option"

record 'p feature =
  id' :: string
  properties :: "'p option"
  geometry :: "geometry option"

record station_properties =
  name :: jsval
  stationIdentifier :: jsval

record observation_properties =
  timestamp :: jsval
  textDescription :: jsval
  temperature :: "quantity option"
  windDirection :: "quantity option"
  windSpeed :: "quantity option"
  windGust :: "quantity option"
  barometricPressure :: "quantity option"

type_synonym station = "station_properties feature"

type_synonym observation = "observation_properties feature"

record stations_document =
  features :: "station list option"

record position_value =
  latitude :: jsnum
  longitude :: jsnum

type_synonym position = "position_value option with_value"

text \<open>What the HTTP client passes to a callback: \<open>error\<close> (\<open>null\<close> or an error),
  \<open>response\<close> and the parsed \<open>data\<close>.\<close>

record response =
  statusCode :: int

record 'd reply =
  error :: "string option"
  response :: "response option"
  data :: "'d option"

text \<open>Reading a property of an object slot, and an element of an array slot (an index past
  the end reads as \<open>undefined\<close>).\<close>

definition get :: "'a option \<Rightarrow> ('a \<Rightarrow> 'b) \<Rightarrow> error + 'b" where
  "get obj f = (case obj of None \<Rightarrow> Inl TypeError | Some r \<Rightarrow> Inr (f r))"

definition item :: "jsnum list \<Rightarrow> nat \<Rightarrow> jsnum" where
  "item xs i = (if i < length xs then xs ! i else Undefined)"

definition element :: "jsnum list option \<Rightarrow> nat \<Rightarrow> error + jsnum" where
  "element arr i = (case arr of None \<Rightarrow> Inl TypeError | Some xs \<Rightarrow> Inr (item xs i))"

definition bind_error :: "error + 'a \<Rightarrow> ('a \<Rightarrow> error + 'b) \<Rightarrow> error + 'b" where
  "bind_error m f = (case m of Inl e \<Rightarrow> Inl e | Inr x \<Rightarrow> f x)"

section \<open>Effects\<close>

text \<open>
  The code acts on the world through \<open>app.debug\<close>, \<open>request.get\<close> and
  \<open>app.handleMessage\<close>. A function of the model returns the effects it has performed, in
  order, and whether it returned or threw. Log lines and the stations URL interpolate
  numbers and objects; they are kept structured instead of being rendered to text.
\<close>

datatype log_entry =
    LogPosition "position option"
  | LogDistance jsval jsnum
  | LogStationError string "response option"
  | LogStationsError string

datatype url = StationsUrl jsnum jsnum | Url string

record request =
  url :: url
  json :: bool
  headers :: "(string \<times> string) list"

text \<open>\<open>request.get\<close> takes the callback to run on the reply. The two callbacks of the
  plugin are closures over the position and over the station.\<close>

datatype callback = StationsCallback jsnum jsnum | StationCallback station

datatype effect =
    Debug log_entry
  | Get request callback
  | HandleMessage string "(string \<times> jsval) list"

datatype outcome = Returned "effect list" | Threw "effect list" error

definition after :: "effect list \<Rightarrow> outcome \<Rightarrow> outcome" where
  "after effs out =
     (case out of
        Returned effs' \<Rightarrow> Returned (effs @ effs')
      | Threw effs' e \<Rightarrow> Threw (effs @ effs') e)"

definition run :: "error + effect list \<Rightarrow> outcome" where
  "run m = (case m of Inl e \<Rightarrow> Threw [] e | Inr effs \<Rightarrow> Returned effs)"

section \<open>The plugin\<close>

definition observationsKey :: string where
  "observationsKey = ''observations.noaa''"

definition userAgent :: string where
  "userAgent = ''Signal K NOAA Observations Plugin''"

definition checkEveryNMinutes :: nat where
  "checkEveryNMinutes = 15"

definition distanceLimit :: jsnum where
  "distanceLimit = Num 100"

text \<open>The test \<open>!error && response.statusCode == 200\<close> of both callbacks.\<close>

definition succeeded :: "'d reply \<Rightarrow> error + bool" where
  "succeeded r =
     (case error r of
        Some _ \<Rightarrow> Inr False
      | None \<Rightarrow> bind_error (get (response r) statusCode) (\<lambda>code. Inr (code = 200)))"

text \<open>\<open>retrieveStationData\<close> issues one request; its callback publishes the observation or
  logs the failure.\<close>

definition retrieveStationData :: "station \<Rightarrow> effect list" where
  "retrieveStationData station =
     [Get \<lparr>url = Url (id' station @ ''/observations/latest''), json = True,
           headers = [(''User-Agent'', userAgent)]\<rparr>
        (StationCallback station)]"

definition retrieveStationData_callback :: "station \<Rightarrow> observation reply \<Rightarrow> outcome" where
  "retrieveStationData_callback station r = run (
     bind_error (succeeded r) (\<lambda>ok.
     if ok then
       bind_error (get (data r) properties) (\<lambda>props.
       bind_error (get props timestamp) (\<lambda>timeStamp.
       bind_error (get props textDescription) (\<lambda>textDesc.
       bind_error (bind_error (get props temperature) (\<lambda>q. get q value')) (\<lambda>temperature.
       bind_error (bind_error (get props windDirection) (\<lambda>q. get q value')) (\<lambda>windDirection.
       bind_error (bind_error (get props windSpeed) (\<lambda>q. get q value')) (\<lambda>windSpeed.
       bind_error (bind_error (get props windGust) (\<lambda>q. get q value')) (\<lambda>windGust.
       bind_error (bind_error (get props barometricPressure) (\<lambda>q. get q value')) (\<lambda>pressure.
       bind_error (bind_error (get (properties station) stationIdentifier) toLowerCase)
         (\<lambda>stationId.
       bind_error (get (properties station) name) (\<lambda>stationName.
       bind_error (get (data r) geometry) (\<lambda>geom.
       bind_error (bind_error (get geom coordinates) (\<lambda>cs. element cs 0)) (\<lambda>lon.
       bind_error (bind_error (get geom coordinates) (\<lambda>cs. element cs 1)) (\<lambda>lat.
       Inr [HandleMessage ''signalk-noaa-observations''
         [(observationsKey @ ''.'' @ stationId @ ''.name'', stationName),
          (observationsKey @ ''.'' @ stationId @ ''.weatherText'', textDesc),
          (observationsKey @ ''.'' @ stationId @ ''.date'', timeStamp),
          (observationsKey @ ''.'' @ stationId @ ''.position'',
             Obj [(''longitude'', Prim lon), (''latitude'', Prim lat)]),
          (observationsKey @ ''.'' @ stationId @ ''.wind.speed'',
             Prim (kilometersPerHourToMetersPerSecond windSpeed)),
          (observationsKey @ ''.'' @ stationId @ ''.wind.gust'',
             Prim (kilometersPerHourToMetersPerSecond windGust)),
          (observationsKey @ ''.'' @ stationId @ ''.wind.direction'',
             Prim (degreesToRadians windDirection)),
          (observationsKey @ ''.'' @ stationId @ ''.temperature'',
             Prim (celsiusToKelvin temperature)),
          (observationsKey @ ''.'' @ stationId @ ''.pressure'', Prim pressure)]]
       )))))))))))))
     else
       Inr [Debug (LogStationError (id' station @ ''/observations/latest'') (response r))]))"

text \<open>\<open>retrieveObservations\<close> asks for the stations near the position; its callback walks
  the stations in the provider's order and starts \<open>retrieveStationData\<close> for each one
  within \<open>distanceLimit\<close>. The message of the failure branch is a plain string in the
  source (single quotes), so the placeholder is logged as it is written.\<close>

definition retrieveObservations :: "jsnum \<Rightarrow> jsnum \<Rightarrow> effect list" where
  "retrieveObservations lat lng =
     [Get \<lparr>url = StationsUrl lat lng, json = True,
           headers = [(''User-Agent'', userAgent)]\<rparr>
        (StationsCallback lat lng)]"

definition retrieveObservations_body ::
  "runtime \<Rightarrow> jsnum \<Rightarrow> jsnum \<Rightarrow> station \<Rightarrow> error + effect list" where
  "retrieveObservations_body rt lat lng station =
     bind_error (bind_error (get (geometry station) coordinates) (\<lambda>cs. element cs 0))
       (\<lambda>stationLng.
     bind_error (bind_error (get (geometry station) coordinates) (\<lambda>cs. element cs 1))
       (\<lambda>stationLat.
     let distanceToStation = calculateDistance rt lat lng stationLat stationLng in
     if js_le distanceToStation distanceLimit then
       bind_error (get (properties station) name) (\<lambda>stationName.
       Inr (Debug (LogDistance stationName distanceToStation) # retrieveStationData station))
     else Inr []))"

fun retrieveObservations_loop ::
  "runtime \<Rightarrow> jsnum \<Rightarrow> jsnum \<Rightarrow> station list \<Rightarrow> outcome" where
  "retrieveObservations_loop rt lat lng [] = Returned []"
| "retrieveObservations_loop rt lat lng (station # stations) =
     (case retrieveObservations_body rt lat lng station of
        Inl e \<Rightarrow> Threw [] e
      | Inr effs \<Rightarrow> after effs (retrieveObservations_loop rt lat lng stations))"

definition retrieveObservations_callback ::
  "runtime \<Rightarrow> jsnum \<Rightarrow> jsnum \<Rightarrow> stations_document reply \<Rightarrow> outcome" where
  "retrieveObservations_callback rt lat lng r =
     (case succeeded r of
        Inl e \<Rightarrow> Threw [] e
      | Inr ok \<Rightarrow>
          if ok then
            (case get (data r) features of
               Inl e \<Rightarrow> Threw [] e
             | Inr None \<Rightarrow> Threw [] TypeError
             | Inr (Some stations) \<Rightarrow> retrieveObservations_loop rt lat lng stations)
          else
            Returned
              [Debug (LogStationsError ''Error retrieving stations ${JSON.stringify(response)}'')])"

text \<open>\<open>checkAndPublishObservations\<close> runs on every timer trigger, on the result of
  \<open>app.getSelfPath('navigation.position')\<close>.\<close>

definition checkAndPublishObservations :: "position option \<Rightarrow> outcome" where
  "checkAndPublishObservations position =
     (case position of
        None \<Rightarrow> Returned [Debug (LogPosition position)]
      | Some p \<Rightarrow>
          run (bind_error (get (value' p) latitude) (\<lambda>lat.
               bind_error (get (value' p) longitude) (\<lambda>lng.
               Inr (retrieveObservations lat lng)))))"

text \<open>\<open>plugin.start\<close> registers two timers, in milliseconds; each of them calls
  \<open>checkAndPublishObservations\<close>.\<close>

datatype timer = SetTimeout nat | SetInterval nat

definition plugin_start :: "timer list" where
  "plugin_start = [SetTimeout 5000, SetInterval (checkEveryNMinutes * 60 * 1000)]"

section \<open>One polling cycle\<close>

text \<open>
  The callbacks run when the replies arrive. A cycle is laid out here in the order in which
  the requests were issued: the timer's call, then the stations callback, then one callback
  per requested station, each with its own outcome. The cycle runs in a runtime, for the
  distances, and against a network, for the replies.
\<close>

record network =
  stations_reply :: "stations_document reply"
  observation_reply :: "station \<Rightarrow> observation reply"

fun effects :: "outcome \<Rightarrow> effect list" where
  "effects (Returned effs) = effs"
| "effects (Threw effs e) = effs"

fun dispatch :: "runtime \<Rightarrow> network \<Rightarrow> effect \<Rightarrow> outcome list" where
  "dispatch rt net (Get req (StationsCallback lat lng)) =
     [retrieveObservations_callback rt lat lng (stations_reply net)]"
| "dispatch rt net (Get req (StationCallback station)) =
     [retrieveStationData_callback station (observation_reply net station)]"
| "dispatch rt net _ = []"

definition replies :: "runtime \<Rightarrow> network \<Rightarrow> outcome list \<Rightarrow> outcome list" where
  "replies rt net outs = concat (map (dispatch rt net) (concat (map effects outs)))"

definition cycle :: "runtime \<Rightarrow> network \<Rightarrow> position option \<Rightarrow> outcome list" where
  "cycle rt net position =
     (let timer = [checkAndPublishObservations position];
          stations = replies rt net timer;
          observations = replies rt net stations
      in timer @ stations @ observations)"

section \<open>Vocabulary of the properties\<close>

text \<open>A reply is a success when there is no error and the status is 200; it is a failure
  when the transport reported an error or the provider answered with another status.\<close>

definition request_ok :: "'d reply \<Rightarrow> bool" where
  "request_ok r =
     (case error r of
        Some _ \<Rightarrow> False
      | None \<Rightarrow> (case response r of Some resp \<Rightarrow> statusCode resp = 200 | None \<Rightarrow> False))"

definition request_failed :: "'d reply \<Rightarrow> bool" where
  "request_failed r =
     (case error r of
        Some _ \<Rightarrow> True
      | None \<Rightarrow> (case response r of Some resp \<Rightarrow> statusCode resp \<noteq> 200 | None \<Rightarrow> False))"

text \<open>A station as the provider documents it: coordinates and properties are present.\<close>

definition station_complete :: "station \<Rightarrow> bool" where
  "station_complete station =
     (properties station \<noteq> None \<and>
      (case geometry station of Some g \<Rightarrow> coordinates g \<noteq> None | None \<Rightarrow> False))"

text \<open>The distance from a position to a station, as the runtime computes it, is within
  the limit. The provider lists coordinates as longitude, latitude.\<close>

definition within_limit :: "runtime \<Rightarrow> jsnum \<Rightarrow> jsnum \<Rightarrow> station \<Rightarrow> bool" where
  "within_limit rt lat lng station =
     (case geometry station of
        None \<Rightarrow> False
      | Some g \<Rightarrow>
          (case coordinates g of
             None \<Rightarrow> False
           | Some cs \<Rightarrow>
               js_le (calculateDistance rt lat lng (item cs 1) (item cs 0)) distanceLimit))"

text \<open>The law-of-cosines term of \<open>calculateDistance\<close>, as computed before the clamp.\<close>

definition cosine_term :: "runtime \<Rightarrow> jsnum \<Rightarrow> jsnum \<Rightarrow> jsnum \<Rightarrow> jsnum \<Rightarrow> jsnum" where
  "cosine_term rt lat1 lon1 lat2 lon2 =
     (let radlat1 = fl_divide rt (fl_times rt (Math_PI rt) lat1) 180;
          radlat2 = fl_divide rt (fl_times rt (Math_PI rt) lat2) 180;
          theta = fl_minus rt lon1 lon2;
          radtheta = fl_divide rt (fl_times rt (Math_PI rt) theta) 180
      in fl_plus rt (fl_times rt (Math_sin rt radlat1) (Math_sin rt radlat2))
           (fl_times rt (fl_times rt (Math_cos rt radlat1) (Math_cos rt radlat2))
              (Math_cos rt radtheta)))"

text \<open>The stations for which an observation was requested, in the order of the requests.\<close>

fun requested :: "effect list \<Rightarrow> station list" where
  "requested [] = []"
| "requested (Get req (StationCallback station) # effs) = station # requested effs"
| "requested (e # effs) = requested effs"

text \<open>Whether a call returned, and the path/value pairs it handed to \<open>app.handleMessage\<close>.\<close>

fun returned :: "outcome \<Rightarrow> bool" where
  "returned (Returned effs) = True"
| "returned (Threw effs e) = False"

fun handled :: "effect list \<Rightarrow> (string \<times> jsval) list" where
  "handled [] = []"
| "handled (HandleMessage plugin vs # effs) = vs @ handled effs"
| "handled (e # effs) = handled effs"

section \<open>Sample documents\<close>

definition sample_station :: "string \<Rightarrow> jsnum \<Rightarrow> jsnum \<Rightarrow> station" where
  "sample_station sid lon lat =
     \<lparr>id' = ''https://api.weather.gov/stations/'' @ sid,
      properties = Some \<lparr>name = Str ''Logan Airport'', stationIdentifier = Str sid\<rparr>,
      geometry = Some \<lparr>coordinates = Some [lon, lat]\<rparr>\<rparr>"

definition sample_properties :: "quantity option \<Rightarrow> observation_properties" where
  "sample_properties temp =
     \<lparr>timestamp = Str ''2022-06-01T12:00:00+00:00'', textDescription = Str ''Cloudy'',
      temperature = temp,
      windDirection = Some \<lparr>value' = Num 180\<rparr>,
      windSpeed = Some \<lparr>value' = Num 18\<rparr>,
      windGust = Some \<lparr>value' = Null\<rparr>,
      barometricPressure = Some \<lparr>value' = Num 101325\<rparr>\<rparr>"

definition sample_observation :: "quantity option \<Rightarrow> observation" where
  "sample_observation temp =
     \<lparr>id' = ''https://api.weather.gov/stations/KBOS/observations/1'',
      properties = Some (sample_properties temp),
      geometry = Some \<lparr>coordinates = Some [Num (- 71.03), Num 42.36]\<rparr>\<rparr>"

definition ok_reply :: "'d \<Rightarrow> 'd reply" where
  "ok_reply d = \<lparr>error = None, response = Some \<lparr>statusCode = 200\<rparr>, data = Some d\<rparr>"

definition unavailable_reply :: "'d reply" where
  "unavailable_reply = \<lparr>error = None, response = Some \<lparr>statusCode = 503\<rparr>, data = None\<rparr>"

definition timeout_reply :: "'d reply" where
  "timeout_reply = \<lparr>error = Some ''ETIMEDOUT'', response = None, data = None\<rparr>"

text \<open>An observation of a station whose sensors report nothing: every quantity is there,
  every value is \<open>null\<close>.\<close>

definition blank_observation :: observation where
  "blank_observation =
     \<lparr>id' = ''https://api.weather.gov/stations/KBOS/observations/2'',
      properties = Some
        \<lparr>timestamp = Str ''2022-06-01T13:00:00+00:00'', textDescription = Str [],
         temperature = Some \<lparr>value' = Null\<rparr>,
         windDirection = Some \<lparr>value' = Null\<rparr>,
         windSpeed = Some \<lparr>value' = Null\<rparr>,
         windGust = Some \<lparr>value' = Null\<rparr>,
         barometricPressure = Some \<lparr>value' = Null\<rparr>\<rparr>,
      geometry = Some \<lparr>coordinates = Some [Num (- 71.03), Num 42.36]\<rparr>\<rparr>"

text \<open>A network in which the request for KBOS times out and every other station answers.\<close>

definition sample_network :: network where
  "sample_network =
     \<lparr>stations_reply = unavailable_reply,
      observation_reply = (\<lambda>station.
        if id' station = ''https://api.weather.gov/stations/KBOS'' then timeout_reply
        else ok_reply blank_observation)\<rparr>"

section \<open>Basic facts\<close>

lemma js_op1_Num [simp]: "js_op1 f (Num x) = Num (f x)"
  by (simp add: js_op1_def)

lemma js_op1_NaN [simp]: "js_op1 f NaN = NaN" "js_op1 f Undefined = NaN"
  by (simp_all add: js_op1_def)

lemma js_op2_Num [simp]: "js_op2 f (Num x) (Num y) = Num (f x y)"
  by (simp add: js_op2_def)

lemma js_op2_NaN_left [simp]: "js_op2 f NaN b = NaN" "js_op2 f Undefined b = NaN"
  by (simp_all add: js_op2_def)

lemma js_op2_NaN_right [simp]: "js_op2 f a NaN = NaN" "js_op2 f a Undefined = NaN"
  by (simp_all add: js_op2_def split: jsnum.splits)

lemma js_rel_Num [simp]: "js_rel r (Num x) (Num y) = r x y"
  by (simp add: js_rel_def)

lemma js_rel_NaN [simp]: "js_rel r NaN b = False" "js_rel r a NaN = False"
  by (simp_all add: js_rel_def split: jsnum.splits)

lemma Math_acos_NaN [simp]: "Math_acos rt NaN = NaN"
  by (simp add: Math_acos_def)

lemmas js_ops =
  fl_times_def fl_plus_def fl_minus_def fl_divide_def js_gt_def js_le_def Math_sin_def
  Math_cos_def Math_PI_def

lemma bind_error_Inr [simp]: "bind_error (Inr x) f = f x"
  by (simp add: bind_error_def)

lemma bind_error_Inl [simp]: "bind_error (Inl e) f = Inl e"
  by (simp add: bind_error_def)

lemma get_Some [simp]: "get (Some r) f = Inr (f r)"
  by (simp add: get_def)

lemma get_None [simp]: "get None f = Inl TypeError"
  by (simp add: get_def)

lemma element_Some [simp]: "element (Some xs) i = Inr (item xs i)"
  by (simp add: element_def)

lemma toLowerCase_Str [simp]: "toLowerCase (Str s) = Inr (map toLower s)"
  by (simp add: toLowerCase_def)

lemma run_simps [simp]: "run (Inr effs) = Returned effs" "run (Inl e) = Threw [] e"
  by (simp_all add: run_def)

lemma after_Returned [simp]: "after effs (Returned effs') = Returned (effs @ effs')"
  by (simp add: after_def)

lemma succeeded_ok: "request_ok r \<Longrightarrow> succeeded r = Inr True"
  by (auto simp: request_ok_def succeeded_def split: option.splits)

lemma succeeded_failed: "request_failed r \<Longrightarrow> succeeded r = Inr False"
  by (auto simp: request_failed_def succeeded_def split: option.splits)

lemma sample_replies [simp]:
  "request_ok (ok_reply d)" "data (ok_reply d) = Some d"
  "request_failed (unavailable_reply :: 'd reply)" "request_failed (timeout_reply :: 'd reply)"
  by (simp_all add: request_ok_def request_failed_def ok_reply_def unavailable_reply_def
      timeout_reply_def)

lemma js_times_Num [simp]: "js_times (Num x) (Num y) = Num (x * y)"
  by (simp add: js_times_def js_op2_def)

lemma js_plus_Num [simp]: "js_plus (Num x) (Num y) = Num (x + y)"
  by (simp add: js_plus_def js_op2_def)

lemma js_times_Undefined [simp]: "js_times Undefined b = NaN"
  by (simp add: js_times_def js_op2_def)

lemma js_plus_Undefined [simp]: "js_plus Undefined b = NaN"
  by (simp add: js_plus_def js_op2_def)

lemma js_times_NaN [simp]: "js_times NaN b = NaN"
  by (simp add: js_times_def js_op2_def)

lemma js_plus_NaN [simp]: "js_plus NaN b = NaN"
  by (simp add: js_plus_def js_op2_def)

lemma toLower_not_upper: "\<not> isUpper (toLower c)"
proof (cases "isUpper c")
  case False
  then show ?thesis by (simp add: toLower_def)
next
  case True
  then have "(of_char c :: nat) + 32 < 256"
    by (auto simp: isUpper_def Let_def)
  then have "(of_char (char_of ((of_char c :: nat) + 32)) :: nat) = of_char c + 32"
    by simp
  with True show ?thesis
    by (auto simp: toLower_def isUpper_def Let_def)
qed

lemmas lower_eval = toLower_def isUpper_def char_of_def bit_Suc_0_iff

lemmas sample_defs =
  sample_station_def sample_observation_def sample_properties_def blank_observation_def
  observationsKey_def item_def

lemmas conversion_defs =
  kilometersPerHourToMetersPerSecond_def degreesToRadians_def celsiusToKelvin_def

text \<open>The callback of \<open>retrieveStationData\<close> on a successful reply that follows the
  provider's schema, and on a failed one.\<close>

lemma callback_published:
  assumes "request_ok r" "data r = Some d" "properties d = Some p" "geometry d = Some g"
    "coordinates g = Some cs" "temperature p = Some t" "windDirection p = Some wd"
    "windSpeed p = Some ws" "windGust p = Some wg" "barometricPressure p = Some bp"
    "properties station = Some sp" "stationIdentifier sp = Str sid"
  shows "retrieveStationData_callback station r =
     Returned [HandleMessage ''signalk-noaa-observations''
       [(observationsKey @ ''.'' @ map toLower sid @ ''.name'', name sp),
        (observationsKey @ ''.'' @ map toLower sid @ ''.weatherText'', textDescription p),
        (observationsKey @ ''.'' @ map toLower sid @ ''.date'', timestamp p),
        (observationsKey @ ''.'' @ map toLower sid @ ''.position'',
           Obj [(''longitude'', Prim (item cs 0)), (''latitude'', Prim (item cs 1))]),
        (observationsKey @ ''.'' @ map toLower sid @ ''.wind.speed'',
           Prim (kilometersPerHourToMetersPerSecond (value' ws))),
        (observationsKey @ ''.'' @ map toLower sid @ ''.wind.gust'',
           Prim (kilometersPerHourToMetersPerSecond (value' wg))),
        (observationsKey @ ''.'' @ map toLower sid @ ''.wind.direction'',
           Prim (degreesToRadians (value' wd))),
        (observationsKey @ ''.'' @ map toLower sid @ ''.temperature'',
           Prim (celsiusToKelvin (value' t))),
        (observationsKey @ ''.'' @ map toLower sid @ ''.pressure'', Prim (value' bp))]]"
  using assms by (simp add: retrieveStationData_callback_def succeeded_ok)

lemma callback_failed:
  "request_failed r \<Longrightarrow> retrieveStationData_callback station r =
     Returned [Debug (LogStationError (id' station @ ''/observations/latest'') (response r))]"
  by (simp add: retrieveStationData_callback_def succeeded_failed)

text \<open>The loop over the stations: on complete stations it returns, requests exactly the
  stations within the limit in their order, and the replies to these requests are handled
  one callback per station.\<close>

lemma requested_append: "requested (xs @ ys) = requested xs @ requested ys"
  by (induction xs rule: requested.induct) simp_all

lemma body_complete:
  assumes "station_complete s"
  shows "\<exists>effs. retrieveObservations_body rt lat lng s = Inr effs \<and>
           requested effs = (if within_limit rt lat lng s then [s] else []) \<and>
           (\<forall>rt' net. concat (map (dispatch rt' net) effs) =
             (if within_limit rt lat lng s
              then [retrieveStationData_callback s (observation_reply net s)] else []))"
  using assms
  by (auto simp: station_complete_def retrieveObservations_body_def within_limit_def Let_def
        retrieveStationData_def split: option.splits)

lemma loop_complete:
  assumes "\<forall>s\<in>set stations. station_complete s"
  shows "\<exists>effs. retrieveObservations_loop rt lat lng stations = Returned effs \<and>
           requested effs = filter (within_limit rt lat lng) stations \<and>
           (\<forall>rt' net. concat (map (dispatch rt' net) effs) =
             map (\<lambda>s. retrieveStationData_callback s (observation_reply net s))
               (filter (within_limit rt lat lng) stations))"
  using assms
proof (induction stations)
  case Nil
  then show ?case by simp
next
  case (Cons s stations)
  then obtain effs' where tl: "retrieveObservations_loop rt lat lng stations = Returned effs'"
      "requested effs' = filter (within_limit rt lat lng) stations"
      "\<forall>rt' net. concat (map (dispatch rt' net) effs') =
             map (\<lambda>s. retrieveStationData_callback s (observation_reply net s))
               (filter (within_limit rt lat lng) stations)"
    by auto
  from Cons.prems have "station_complete s" by simp
  from body_complete[OF this, of rt lat lng] obtain effs where hd:
      "retrieveObservations_body rt lat lng s = Inr effs"
      "requested effs = (if within_limit rt lat lng s then [s] else [])"
      "\<forall>rt' net. concat (map (dispatch rt' net) effs) =
             (if within_limit rt lat lng s
              then [retrieveStationData_callback s (observation_reply net s)] else [])"
    by blast
  show ?case using tl hd by (simp add: requested_append)
qed

text \<open>The distance from a point to itself, in any runtime, and two distances from the
  point (0, 0) over the reals: to the point one degree east, and to its antipode.\<close>

lemma distance_same: "calculateDistance rt (Num 0) (Num 0) (Num 0) (Num 0) = Num 0"
  by (simp add: calculateDistance_def)

lemma exact_arithmetic_simps [simp]:
  "rounding exact_arithmetic x = x" "PI exact_arithmetic = pi"
  "sine exact_arithmetic = sin" "cosine exact_arithmetic = cos"
  "arccosine exact_arithmetic = arccos"
  by (simp_all add: exact_arithmetic_def)

lemma distance_one_degree:
  "calculateDistance exact_arithmetic (Num 0) (Num 0) (Num 0) (Num 1)
     = Num (60 * 1.1515 * 0.8684)"
proof -
  have "arccos (cos (pi / 180)) = pi / 180"
    by (rule arccos_cos) simp_all
  moreover have "\<not> 1 < cos (pi / 180)"
    by (simp add: not_less)
  ultimately show ?thesis
    by (simp add: calculateDistance_def js_ops Math_acos_def)
qed

lemma distance_antipode:
  "calculateDistance exact_arithmetic (Num 0) (Num 0) (Num 0) (Num 180)
     = Num (180 * 60 * 1.1515 * 0.8684)"
  by (simp add: calculateDistance_def js_ops Math_acos_def)

text \<open>An upper bound on \<open>\<pi>\<close> from the Maclaurin expansion of the cosine at \<open>355 / 226\<close>.\<close>

lemma cos_355_226_negative: "cos (355 / 226 :: real) < 0"
proof -
  obtain t where t: "cos (355 / 226 :: real) =
      (\<Sum>m<14. cos_coeff m * (355 / 226) ^ m)
      + (cos (t + 1 / 2 * real (14::nat) * pi) / fact 14) * (355 / 226) ^ 14"
    using Maclaurin_cos_expansion2 [of "355 / 226" 14] by auto
  have c: "cos (t + 1 / 2 * real (14::nat) * pi) \<le> 1"
    by simp
  have "(cos (t + 1 / 2 * real (14::nat) * pi) / fact 14) * (355 / 226 :: real) ^ 14
      \<le> (1 / fact 14) * (355 / 226) ^ 14"
    by (intro mult_right_mono divide_right_mono c) simp_all
  moreover have "(\<Sum>m<14. cos_coeff m * (355 / 226 :: real) ^ m)
      + (1 / fact 14) * (355 / 226) ^ 14 < 0"
    by (simp add: cos_coeff_def lessThan_nat_numeral lessThan_Suc fact_numeral power_divide)
  ultimately show ?thesis
    using t by linarith
qed

lemma pi_less_355_113: "pi < 355 / 113"
proof (rule ccontr)
  assume "\<not> pi < 355 / 113"
  then have "355 / 226 \<le> pi / 2"
    by simp
  then have "0 \<le> cos (355 / 226 :: real)"
    by (intro cos_ge_zero) simp_all
  with cos_355_226_negative show False
    by simp
qed

section \<open>Properties of the unit conversions\<close>

text \<open>
  C5. \<open>kilometersPerHourToMetersPerSecond\<close> and \<open>celsiusToKelvin\<close> are total functions
  on numbers and \<open>null\<close>: each returns \<open>null\<close> for \<open>null\<close>; for a number \<open>v\<close> the first
  returns \<open>v * 0.2777777777777778\<close> and the second \<open>v + 273.15\<close>. In particular 36 km/h
  is 10 m/s up to less than \<open>10\<^sup>-\<^sup>9\<close>, and 0 degrees Celsius is exactly 273.15 K.
\<close>

theorem unit_conversions_null_preserving_and_linear:
  "kilometersPerHourToMetersPerSecond Null = Null
   \<and> celsiusToKelvin Null = Null
   \<and> (\<forall>v. kilometersPerHourToMetersPerSecond (Num v) = Num (v * 0.2777777777777778))
   \<and> (\<forall>v. celsiusToKelvin (Num v) = Num (v + 273.15))
   \<and> celsiusToKelvin (Num 0) = Num 273.15
   \<and> kilometersPerHourToMetersPerSecond NaN = NaN
   \<and> celsiusToKelvin NaN = NaN
   \<and> kilometersPerHourToMetersPerSecond (Num 36) = Num (36 * 0.2777777777777778)
   \<and> \<bar>36 * 0.2777777777777778 - 10\<bar> < (1 / 10 ^ 9 :: real)"
  by (simp add: kilometersPerHourToMetersPerSecond_def celsiusToKelvin_def)

text \<open>
  C4. The claim asks \<open>degreesToRadians\<close> to multiply by the exact \<open>\<pi> / 180\<close>. The function
  keeps \<open>null\<close>, but it multiplies by the literal \<open>0.0174533\<close>: for 180 degrees it returns
  \<open>3.141594\<close>, which is not \<open>\<pi>\<close>.
\<close>

theorem degreesToRadians_truncated_constant:
  "degreesToRadians Null = Null
   \<and> degreesToRadians (Num 180) = Num 3.141594
   \<and> degreesToRadians (Num 180) \<noteq> Num (180 * (pi / 180))"
  using pi_less_355_113 by (simp add: degreesToRadians_def)

section \<open>Rounding to doubles\<close>

lemma pow2_powr: "pow2 e = 2 powr of_int e"
  by (simp add: pow2_def powr_real_of_int inverse_eq_divide)

lemma pow2_pos [simp]: "0 < pow2 e"
  by (simp add: pow2_powr)

lemma pow2_half: "pow2 (e - 53) = pow2 (e - 52) / 2"
  by (simp add: pow2_powr powr_diff)

lemma pow2_double: "pow2 (e + 1) = 2 * pow2 e"
  by (simp add: pow2_powr powr_add)

lemma rne_near:
  assumes "\<bar>y - of_int M\<bar> < 1 / 2"
  shows "rne y = M"
proof -
  from assms have "y - of_int M < 1 / 2" "- (1 / 2) < y - of_int M"
    by (simp_all only: abs_less_iff) simp_all
  then have "of_int (M - 1) \<le> y" "y < of_int (M + 1)"
    by simp_all
  then have "M - 1 \<le> \<lfloor>y\<rfloor>" "\<lfloor>y\<rfloor> < M + 1"
    by (simp_all only: le_floor_iff floor_less_iff)
  then have "\<lfloor>y\<rfloor> = M \<or> \<lfloor>y\<rfloor> = M - 1"
    by arith
  then show ?thesis
  proof
    assume f: "\<lfloor>y\<rfloor> = M"
    then have "0 \<le> y - of_int M" by linarith
    with assms f show ?thesis by (simp add: rne_def Let_def abs_less_iff)
  next
    assume f: "\<lfloor>y\<rfloor> = M - 1"
    then have "y < of_int M" by linarith
    with assms f show ?thesis by (auto simp: rne_def Let_def abs_less_iff)
  qed
qed

text \<open>A real in the binade of exponent \<open>e\<close> rounds to the multiple of \<open>2\<^sup>e\<^sup>-\<^sup>5\<^sup>2\<close> from which it
  is less than half a spacing away.\<close>

lemma binary64_eq:
  assumes B: "B = of_int M * pow2 (e - 52)"
    and lo: "pow2 e \<le> \<bar>x\<bar>" and hi: "\<bar>x\<bar> < pow2 (e + 1)" and e: "- 1022 \<le> e"
    and near: "\<bar>x - B\<bar> < pow2 (e - 53)"
  shows "binary64 x = B"
proof -
  have "0 < \<bar>x\<bar>"
    using lo pow2_pos [of e] by linarith
  then have x: "x \<noteq> 0" "0 < \<bar>x\<bar>"
    by auto
  have "\<lfloor>log 2 \<bar>x\<bar>\<rfloor> = e"
    using lo hi x by (subst floor_log_eq_powr_iff) (simp_all add: pow2_powr)
  with e have ex: "max \<lfloor>log 2 \<bar>x\<bar>\<rfloor> (- 1022) = e"
    by simp
  define q where "q = pow2 (e - 52)"
  have q: "0 < q"
    by (simp add: q_def)
  have "x / q - of_int M = (x - of_int M * q) / q"
    using q by (simp add: field_simps)
  then have "\<bar>x / q - of_int M\<bar> = \<bar>x - of_int M * q\<bar> / q"
    using q by (simp only: abs_divide abs_of_pos)
  also have "\<dots> < (q / 2) / q"
  proof (rule divide_strict_right_mono)
    show "\<bar>x - of_int M * q\<bar> < q / 2"
      using near by (simp only: B pow2_half q_def)
  qed (rule q)
  also have "\<dots> = 1 / 2"
    using q by simp
  finally have "rne (x / q) = M"
    by (rule rne_near)
  with x ex show ?thesis
    by (simp add: binary64_def Let_def q_def B)
qed

text \<open>The same for a real known only up to less than half a spacing, around a double that
  is not at the edge of its binade.\<close>

lemma binary64_approx:
  assumes near: "\<bar>x - B\<bar> < pow2 (e - 53)"
    and B: "B = of_int M * pow2 (e - 52)"
    and lo: "pow2 e + pow2 (e - 53) \<le> \<bar>B\<bar>" and hi: "\<bar>B\<bar> + pow2 (e - 53) \<le> pow2 (e + 1)"
    and e: "- 1022 \<le> e"
  shows "binary64 x = B"
proof (rule binary64_eq [OF B _ _ e near])
  show "pow2 e \<le> \<bar>x\<bar>"
    using near lo by linarith
  show "\<bar>x\<bar> < pow2 (e + 1)"
    using near hi by linarith
qed

section \<open>Sine and cosine by their Maclaurin series\<close>

lemma sin_taylor_bound:
  fixes x :: real
  assumes "0 < x" "0 < n"
  shows "\<bar>sin x - (\<Sum>m<n. sin_coeff m * x ^ m)\<bar> \<le> x ^ n / fact n"
proof -
  obtain t where "sin x =
      (\<Sum>m<n. sin_coeff m * x ^ m) + (sin (t + 1 / 2 * real n * pi) / fact n) * x ^ n"
    using Maclaurin_sin_expansion3 [OF assms(2) assms(1)] by blast
  then have "\<bar>sin x - (\<Sum>m<n. sin_coeff m * x ^ m)\<bar>
      = \<bar>sin (t + 1 / 2 * real n * pi)\<bar> * (x ^ n / fact n)"
    using assms(1) by (simp add: abs_mult)
  also have "\<dots> \<le> 1 * (x ^ n / fact n)"
    using assms(1) by (intro mult_right_mono) simp_all
  finally show ?thesis
    by simp
qed

lemma cos_taylor_bound:
  fixes x :: real
  assumes "0 < x" "0 < n"
  shows "\<bar>cos x - (\<Sum>m<n. cos_coeff m * x ^ m)\<bar> \<le> x ^ n / fact n"
proof -
  obtain t where "cos x =
      (\<Sum>m<n. cos_coeff m * x ^ m) + (cos (t + 1 / 2 * real n * pi) / fact n) * x ^ n"
    using Maclaurin_cos_expansion2 [OF assms] by blast
  then have "\<bar>cos x - (\<Sum>m<n. cos_coeff m * x ^ m)\<bar>
      = \<bar>cos (t + 1 / 2 * real n * pi)\<bar> * (x ^ n / fact n)"
    using assms(1) by (simp add: abs_mult)
  also have "\<dots> \<le> 1 * (x ^ n / fact n)"
    using assms(1) by (intro mult_right_mono) simp_all
  finally show ?thesis
    by simp
qed

lemmas taylor_eval =
  sin_coeff_def cos_coeff_def lessThan_nat_numeral lessThan_Suc fact_numeral power_divide

text \<open>Eight degrees in radians, as the doubles give it, is \<open>0x1.1df46a2529d39p-3\<close>. Its sine
  and cosine lie less than half a spacing from the doubles \<open>0x1.1d06c968d9e19p-3\<close> and
  \<open>0x1.fb046a930947ap-1\<close>.\<close>

lemma sin_eight_degrees:
  "\<bar>sin (5030569068109113 / 36028797018963968) - 5014239404989977 / 36028797018963968\<bar>
     < (1 / 2 ^ 56 :: real)"
proof -
  let ?r = "5030569068109113 / 36028797018963968 :: real"
  have "\<bar>sin ?r - (\<Sum>m<14. sin_coeff m * ?r ^ m)\<bar> \<le> ?r ^ 14 / fact 14"
    by (rule sin_taylor_bound) simp_all
  moreover have "\<bar>(\<Sum>m<14. sin_coeff m * ?r ^ m) - 5014239404989977 / 36028797018963968\<bar>
      + ?r ^ 14 / fact 14 < 1 / 2 ^ 56"
    by (simp add: taylor_eval)
  ultimately show ?thesis
    by linarith
qed

lemma cos_eight_degrees:
  "\<bar>cos (5030569068109113 / 36028797018963968) - 4459770905381437 / 4503599627370496\<bar>
     < (1 / 2 ^ 54 :: real)"
proof -
  let ?r = "5030569068109113 / 36028797018963968 :: real"
  have "\<bar>cos ?r - (\<Sum>m<14. cos_coeff m * ?r ^ m)\<bar> \<le> ?r ^ 14 / fact 14"
    by (rule cos_taylor_bound) simp_all
  moreover have "\<bar>(\<Sum>m<14. cos_coeff m * ?r ^ m) - 4459770905381437 / 4503599627370496\<bar>
      + ?r ^ 14 / fact 14 < 1 / 2 ^ 54"
    by (simp add: taylor_eval)
  ultimately show ?thesis
    by linarith
qed

text \<open>Eight decimals of \<open>\<pi>\<close>, from the sign of the cosine on both sides of \<open>\<pi> / 2\<close>.\<close>

lemma pi_lower: "314159265 / 100000000 < pi"
proof (rule ccontr)
  let ?x = "62831853 / 40000000 :: real"
  assume "\<not> 314159265 / 100000000 < pi"
  then have "pi / 2 \<le> ?x"
    by simp
  moreover have "?x \<le> pi"
    using pi_ge_two by simp
  ultimately have "cos ?x \<le> cos (pi / 2)"
    by (intro cos_monotone_0_pi_le) simp_all
  moreover have "\<bar>cos ?x - (\<Sum>m<16. cos_coeff m * ?x ^ m)\<bar> \<le> ?x ^ 16 / fact 16"
    by (rule cos_taylor_bound) simp_all
  moreover have "0 < (\<Sum>m<16. cos_coeff m * ?x ^ m) - ?x ^ 16 / fact 16"
    by (simp add: taylor_eval)
  ultimately show False
    by simp
qed

lemma pi_upper: "pi < 314159266 / 100000000"
proof (rule ccontr)
  let ?x = "157079633 / 100000000 :: real"
  assume "\<not> pi < 314159266 / 100000000"
  then have "?x \<le> pi / 2"
    by simp
  then have "0 \<le> cos ?x"
    by (intro cos_ge_zero) simp_all
  moreover have "\<bar>cos ?x - (\<Sum>m<16. cos_coeff m * ?x ^ m)\<bar> \<le> ?x ^ 16 / fact 16"
    by (rule cos_taylor_bound) simp_all
  moreover have "(\<Sum>m<16. cos_coeff m * ?x ^ m) + ?x ^ 16 / fact 16 < 0"
    by (simp add: taylor_eval)
  ultimately show False
    by linarith
qed

text \<open>The cosine of the double \<open>Math.PI\<close> is so close to \<open>-1\<close> that it rounds to it.\<close>

lemma cos_Math_PI: "binary64 (cos (884279719003555 / 281474976710656)) = - 1"
proof -
  let ?p = "884279719003555 / 281474976710656 :: real"
  define x where "x = \<bar>pi - ?p\<bar>"
  have "0 \<le> x"
    by (simp add: x_def)
  moreover have "x < 1 / 100000000"
    unfolding x_def using pi_lower pi_upper by linarith
  ultimately have x: "0 \<le> x" "x < 1 / 100000000" .
  have "cos ?p = cos (pi - (pi - ?p))"
    by simp
  also have "\<dots> = - cos (pi - ?p)"
    by (rule cos_pi_minus)
  also have "cos (pi - ?p) = cos x"
    by (simp add: x_def)
  finally have c: "cos ?p = - cos x" .
  have close: "1 - cos x < 1 / 2 ^ 54"
  proof (cases "x = 0")
    case True
    then show ?thesis by simp
  next
    case False
    with x have "0 < x" by simp
    then have "\<bar>cos x - (\<Sum>m<2. cos_coeff m * x ^ m)\<bar> \<le> x ^ 2 / fact 2"
      by (rule cos_taylor_bound) simp
    then have "1 - cos x \<le> x\<^sup>2 / 2"
      by (simp add: taylor_eval abs_le_iff)
    moreover have "x\<^sup>2 < (1 / 100000000)\<^sup>2"
      using x by (intro power_strict_mono) simp_all
    then have "x\<^sup>2 < 1 / 10000000000000000"
      by (simp add: power2_eq_square)
    ultimately have "1 - cos x < 1 / 18014398509481984"
      by linarith
    then show ?thesis
      by simp
  qed
  show ?thesis
  proof (cases "cos x = 1")
    case True
    have "binary64 (- 1) = - 1"
      by (rule binary64_eq [where e = 0 and M = "- 4503599627370496"])
        (simp_all add: pow2_def)
    with True c show ?thesis
      by simp
  next
    case False
    then have "cos x < 1"
      using cos_le_one [of x] by linarith
    with close have "binary64 (- cos x) = - 1"
      by (intro binary64_eq [where e = "- 1" and M = "- 9007199254740992"])
        (simp_all add: pow2_def abs_less_iff)
    with c show ?thesis
      by simp
  qed
qed

section \<open>Properties of the distance\<close>

text \<open>
  C7. For all \<open>lat\<close> and \<open>lon\<close>, the distance from the point to itself is exactly 0: the
  early return settles it in every runtime, before any arithmetic. The same holds when both
  coordinates are \<open>null\<close> or \<open>undefined\<close>.
\<close>

theorem calculateDistance_same_point:
  "calculateDistance rt (Num lat) (Num lon) (Num lat) (Num lon) = Num 0
   \<and> calculateDistance rt Null Null Null Null = Num 0
   \<and> calculateDistance rt Undefined Undefined Undefined Undefined = Num 0"
  by (simp add: calculateDistance_def)

text \<open>
  Over the reals the law-of-cosines term always lies in \<open>[-1, 1]\<close>: the clamp never fires,
  and the distance between two numeric points is a number. A \<open>NaN\<close> between two points can
  only come from rounding.
\<close>

lemma lagrange_identity:
  fixes x y u v :: real
  shows "(x * u + y * v)\<^sup>2 = (x\<^sup>2 + y\<^sup>2) * (u\<^sup>2 + v\<^sup>2) - (x * v - y * u)\<^sup>2"
  by (simp add: power2_eq_square algebra_simps)

lemma law_of_cosines_term_bounded:
  fixes a b t :: real
  shows "\<bar>sin a * sin b + cos a * cos b * cos t\<bar> \<le> 1"
proof -
  define v where "v = cos b * cos t"
  have ct: "(cos t)\<^sup>2 \<le> 1"
    by (simp add: abs_square_le_1)
  have "v\<^sup>2 = (cos b)\<^sup>2 * (cos t)\<^sup>2"
    by (simp add: v_def power_mult_distrib)
  also have "\<dots> \<le> (cos b)\<^sup>2 * 1"
    by (intro mult_left_mono ct) simp
  finally have "v\<^sup>2 \<le> (cos b)\<^sup>2"
    by simp
  then have v: "(sin b)\<^sup>2 + v\<^sup>2 \<le> 1"
    using sin_cos_squared_add [of b] by linarith
  have "(sin a * sin b + cos a * v)\<^sup>2
      = ((sin a)\<^sup>2 + (cos a)\<^sup>2) * ((sin b)\<^sup>2 + v\<^sup>2) - (sin a * v - cos a * sin b)\<^sup>2"
    by (rule lagrange_identity)
  also have "\<dots> \<le> (sin b)\<^sup>2 + v\<^sup>2"
    by simp
  finally have "(sin a * sin b + cos a * v)\<^sup>2 \<le> 1"
    using v by linarith
  then have "\<bar>sin a * sin b + cos a * v\<bar> \<le> 1"
    by (simp add: abs_square_le_1)
  then show ?thesis
    by (simp add: v_def mult.assoc)
qed

lemma calculateDistance_over_reals:
  "\<exists>d. calculateDistance exact_arithmetic (Num lat1) (Num lon1) (Num lat2) (Num lon2) = Num d
     \<and> 0 \<le> d"
proof (cases "lat1 = lat2 \<and> lon1 = lon2")
  case True
  then show ?thesis
    by (simp add: calculateDistance_def)
next
  case False
  let ?c = "sin (pi * lat1 / 180) * sin (pi * lat2 / 180)
      + cos (pi * lat1 / 180) * cos (pi * lat2 / 180) * cos (pi * (lon1 - lon2) / 180)"
  have b: "\<bar>?c\<bar> \<le> 1"
    by (rule law_of_cosines_term_bounded)
  then have "0 \<le> arccos ?c"
    by (intro arccos_lbound) linarith+
  with False b show ?thesis
    by (auto simp: calculateDistance_def js_ops Math_acos_def Let_def)
qed

text \<open>The clamp caps the term from above only. In any runtime, a term that comes out
  below \<open>-1\<close> reaches \<open>Math.acos\<close> unchanged, and the distance is \<open>NaN\<close>.\<close>

lemma term_below_minus_one:
  assumes "\<not> (js_eq lat1 lat2 \<and> js_eq lon1 lon2)"
    and "cosine_term rt lat1 lon1 lat2 lon2 = Num d" and "d < - 1"
  shows "calculateDistance rt lat1 lon1 lat2 lon2 = NaN"
  using assms
  by (auto simp: calculateDistance_def cosine_term_def Let_def js_gt_def Math_acos_def
      fl_divide_def fl_times_def)

text \<open>The term for the point (8, 0) and its antipode (-8, 180), operation by operation in
  the arithmetic of doubles.\<close>

lemma antipode_term:
  "cosine_term double_arithmetic (Num 8) (Num 0) (Num (- 8)) (Num 180)
     = Num (- (4503599627370497 / 4503599627370496))"
proof -
  define P :: real where "P = 884279719003555 / 281474976710656"
  define A :: real where "A = 884279719003555 / 35184372088832"
  define R :: real where "R = 5030569068109113 / 36028797018963968"
  define T :: real where "T = 4974073419394997 / 8796093022208"
  define S :: real where "S = 5014239404989977 / 36028797018963968"
  define C :: real where "C = 4459770905381437 / 4503599627370496"
  define Q1 :: real where "Q1 = 1395694493897217 / 72057594037927936"
  define Q2 :: real where "Q2 = 8832737443003841 / 9007199254740992"
  define D :: real where "D = 4503599627370497 / 4503599627370496"
  note defs = P_def A_def R_def T_def S_def C_def Q1_def Q2_def D_def
  let ?rt = double_arithmetic
  have rt: "rounding ?rt = binary64" "PI ?rt = P" "sine ?rt = (\<lambda>x. binary64 (sin x))"
    "cosine ?rt = (\<lambda>x. binary64 (cos x))"
    by (simp_all add: double_arithmetic_def P_def)
  have a1: "binary64 (P * 8) = A"
    unfolding defs
    by (rule binary64_eq [where e = 4 and M = 7074237752028440]) (simp_all add: pow2_def)
  have a2: "binary64 (- (P * 8)) = - A"
    unfolding defs
    by (rule binary64_eq [where e = 4 and M = "- 7074237752028440"]) (simp_all add: pow2_def)
  have r1: "binary64 (A / 180) = R"
    unfolding defs
    by (rule binary64_eq [where e = "- 3" and M = 5030569068109113]) (simp_all add: pow2_def)
  have r2: "binary64 (- (A / 180)) = - R"
    unfolding defs
    by (rule binary64_eq [where e = "- 3" and M = "- 5030569068109113"])
      (simp_all add: pow2_def)
  have th: "binary64 (- 180) = - 180"
    by (rule binary64_eq [where e = 7 and M = "- 6333186975989760"]) (simp_all add: pow2_def)
  have a3: "binary64 (- (P * 180)) = - T"
    unfolding defs
    by (rule binary64_eq [where e = 9 and M = "- 4974073419394997"]) (simp_all add: pow2_def)
  have r3: "binary64 (- (T / 180)) = - P"
    unfolding defs
    by (rule binary64_eq [where e = 1 and M = "- 7074237752028440"]) (simp_all add: pow2_def)
  have s1: "binary64 (sin R) = S"
    unfolding defs using sin_eight_degrees
    by (intro binary64_approx [where e = "- 3" and M = 5014239404989977])
      (simp_all add: pow2_def)
  have "\<bar>5014239404989977 / 36028797018963968 - sin (5030569068109113 / 36028797018963968)\<bar>
      < (1 / 2 ^ 56 :: real)"
    by (subst abs_minus_commute) (rule sin_eight_degrees)
  then have s2: "binary64 (- sin R) = - S"
    unfolding defs
    by (intro binary64_approx [where e = "- 3" and M = "- 5014239404989977"])
      (simp_all add: pow2_def)
  have c1: "binary64 (cos R) = C"
    unfolding defs using cos_eight_degrees
    by (intro binary64_approx [where e = "- 1" and M = 8919541810762874])
      (simp_all add: pow2_def)
  have c3: "binary64 (cos P) = - 1"
    unfolding defs by (rule cos_Math_PI)
  have p1: "binary64 (- (S * S)) = - Q1"
    unfolding defs
    by (rule binary64_eq [where e = "- 6" and M = "- 5582777975588868"])
      (simp_all add: pow2_def)
  have p2: "binary64 (C * C) = Q2"
    unfolding defs
    by (rule binary64_eq [where e = "- 1" and M = 8832737443003841]) (simp_all add: pow2_def)
  have p3: "binary64 (- Q2) = - Q2"
    unfolding defs
    by (rule binary64_eq [where e = "- 1" and M = "- 8832737443003841"])
      (simp_all add: pow2_def)
  have d: "binary64 (- Q2 - Q1) = - D"
    unfolding defs
    by (rule binary64_eq [where e = 0 and M = "- 4503599627370497"]) (simp_all add: pow2_def)
  have radlat1: "fl_divide ?rt (fl_times ?rt (Math_PI ?rt) (Num 8)) 180 = Num R"
    by (simp add: js_ops rt a1 r1)
  have radlat2: "fl_divide ?rt (fl_times ?rt (Math_PI ?rt) (Num (- 8))) 180 = Num (- R)"
    by (simp add: js_ops rt a2 r2)
  have theta: "fl_minus ?rt (Num 0) (Num 180) = Num (- 180)"
    by (simp add: js_ops rt th)
  have radtheta: "fl_divide ?rt (fl_times ?rt (Math_PI ?rt) (Num (- 180))) 180 = Num (- P)"
    by (simp add: js_ops rt a3 r3)
  have sines: "fl_times ?rt (Math_sin ?rt (Num R)) (Math_sin ?rt (Num (- R))) = Num (- Q1)"
    by (simp add: js_ops rt s1 s2 p1)
  have cosines: "fl_times ?rt (fl_times ?rt (Math_cos ?rt (Num R)) (Math_cos ?rt (Num (- R))))
      (Math_cos ?rt (Num (- P))) = Num (- Q2)"
    by (simp add: js_ops rt c1 c3 p2 p3)
  have "fl_plus ?rt (Num (- Q1)) (Num (- Q2)) = Num (- D)"
    by (simp add: js_ops rt d)
  then show ?thesis
    unfolding cosine_term_def Let_def radlat1 radlat2 theta radtheta sines cosines
    by (simp only: D_def)
qed

text \<open>
  C6. The claim asks that the distance is never \<open>NaN\<close> for valid coordinates, antipodal
  points included. In the arithmetic of doubles the term for (8, 0) and (-8, 180) is
  \<open>-1.0000000000000002\<close>, one spacing below \<open>-1\<close>; the clamp leaves it alone and the
  distance is \<open>NaN\<close>.
\<close>

theorem calculateDistance_antipode_is_NaN:
  "cosine_term double_arithmetic (Num 8) (Num 0) (Num (- 8)) (Num 180)
     = Num (- (4503599627370497 / 4503599627370496))
   \<and> calculateDistance double_arithmetic (Num 8) (Num 0) (Num (- 8)) (Num 180) = NaN"
  using antipode_term
    term_below_minus_one [of "Num 8" "Num (- 8)" "Num 0" "Num 180" double_arithmetic
      "- (4503599627370497 / 4503599627370496)"]
  by simp

section \<open>Properties of the station callback\<close>

text \<open>
  C1. For a station and a successful reply that follow the provider's schema, the callback
  of \<open>retrieveStationData\<close> hands exactly nine path/value pairs to \<open>app.handleMessage\<close>,
  in the order name, weatherText, date, position, wind.speed, wind.gust, wind.direction,
  temperature, pressure. Every path carries the lower-cased station identifier, which
  contains no upper-case letter whatever the case of the identifier was. The name, the text,
  the date and the pressure are the values of the documents, unconverted.
\<close>

theorem retrieveStationData_emits_nine_pairs:
  assumes "request_ok r" "data r = Some d" "properties d = Some p" "geometry d = Some g"
    "coordinates g = Some cs" "temperature p = Some t" "windDirection p = Some wd"
    "windSpeed p = Some ws" "windGust p = Some wg" "barometricPressure p = Some bp"
    "properties station = Some sp" "stationIdentifier sp = Str sid"
  shows "retrieveStationData_callback station r =
     Returned [HandleMessage ''signalk-noaa-observations''
       [(observationsKey @ ''.'' @ map toLower sid @ ''.name'', name sp),
        (observationsKey @ ''.'' @ map toLower sid @ ''.weatherText'', textDescription p),
        (observationsKey @ ''.'' @ map toLower sid @ ''.date'', timestamp p),
        (observationsKey @ ''.'' @ map toLower sid @ ''.position'',
           Obj [(''longitude'', Prim (item cs 0)), (''latitude'', Prim (item cs 1))]),
        (observationsKey @ ''.'' @ map toLower sid @ ''.wind.speed'',
           Prim (kilometersPerHourToMetersPerSecond (value' ws))),
        (observationsKey @ ''.'' @ map toLower sid @ ''.wind.gust'',
           Prim (kilometersPerHourToMetersPerSecond (value' wg))),
        (observationsKey @ ''.'' @ map toLower sid @ ''.wind.direction'',
           Prim (degreesToRadians (value' wd))),
        (observationsKey @ ''.'' @ map toLower sid @ ''.temperature'',
           Prim (celsiusToKelvin (value' t))),
        (observationsKey @ ''.'' @ map toLower sid @ ''.pressure'', Prim (value' bp))]]
     \<and> length (handled (effects (retrieveStationData_callback station r))) = 9
     \<and> (\<forall>c \<in> set (map toLower sid). \<not> isUpper c)"
  using callback_published [OF assms] by (simp add: toLower_not_upper)

theorem retrieveStationData_emits_nine_pairs_witness:
  "retrieveStationData_callback (sample_station ''KBos'' (Num (- 71.03)) (Num 42.36))
     (ok_reply (sample_observation (Some \<lparr>value' = Num 0\<rparr>))) =
   Returned [HandleMessage ''signalk-noaa-observations''
       [(''observations.noaa.kbos.name'', Str ''Logan Airport''),
        (''observations.noaa.kbos.weatherText'', Str ''Cloudy''),
        (''observations.noaa.kbos.date'', Str ''2022-06-01T12:00:00+00:00''),
        (''observations.noaa.kbos.position'',
           Obj [(''longitude'', Prim (Num (- 71.03))), (''latitude'', Prim (Num 42.36))]),
        (''observations.noaa.kbos.wind.speed'', Prim (Num (18 * 0.2777777777777778))),
        (''observations.noaa.kbos.wind.gust'', Prim Null),
        (''observations.noaa.kbos.wind.direction'', Prim (Num 3.141594)),
        (''observations.noaa.kbos.temperature'', Prim (Num 273.15)),
        (''observations.noaa.kbos.pressure'', Prim (Num 101325))]]"
  using retrieveStationData_emits_nine_pairs
    [where r = "ok_reply (sample_observation (Some \<lparr>value' = Num 0\<rparr>))"
       and d = "sample_observation (Some \<lparr>value' = Num 0\<rparr>)"
       and p = "sample_properties (Some \<lparr>value' = Num 0\<rparr>)"
       and g = "\<lparr>coordinates = Some [Num (- 71.03), Num 42.36]\<rparr>"
       and cs = "[Num (- 71.03), Num 42.36]"
       and t = "\<lparr>value' = Num 0\<rparr>" and wd = "\<lparr>value' = Num 180\<rparr>"
       and ws = "\<lparr>value' = Num 18\<rparr>" and wg = "\<lparr>value' = Null\<rparr>"
       and bp = "\<lparr>value' = Num 101325\<rparr>"
       and station = "sample_station ''KBos'' (Num (- 71.03)) (Num 42.36)"
       and sp = "\<lparr>name = Str ''Logan Airport'', stationIdentifier = Str ''KBos''\<rparr>"
       and sid = "''KBos''"]
  by (simp add: sample_defs conversion_defs lower_eval)

text \<open>
  C3, as amended. For a station and a successful reply that follow the provider's schema,
  the callback returns without raising, and every numeric field whose value is \<open>null\<close> in
  the payload is published as \<open>null\<close>: the conversions map \<open>null\<close> to \<open>null\<close>, and the
  pressure is handed on as it is.
\<close>

theorem null_value_is_published_as_null:
  assumes "request_ok r" "data r = Some d" "properties d = Some p" "geometry d = Some g"
    "coordinates g = Some cs" "temperature p = Some t" "windDirection p = Some wd"
    "windSpeed p = Some ws" "windGust p = Some wg" "barometricPressure p = Some bp"
    "properties station = Some sp" "stationIdentifier sp = Str sid"
  shows "returned (retrieveStationData_callback station r)
     \<and> (value' ws = Null \<longrightarrow>
          (observationsKey @ ''.'' @ map toLower sid @ ''.wind.speed'', Prim Null)
            \<in> set (handled (effects (retrieveStationData_callback station r))))
     \<and> (value' wg = Null \<longrightarrow>
          (observationsKey @ ''.'' @ map toLower sid @ ''.wind.gust'', Prim Null)
            \<in> set (handled (effects (retrieveStationData_callback station r))))
     \<and> (value' wd = Null \<longrightarrow>
          (observationsKey @ ''.'' @ map toLower sid @ ''.wind.direction'', Prim Null)
            \<in> set (handled (effects (retrieveStationData_callback station r))))
     \<and> (value' t = Null \<longrightarrow>
          (observationsKey @ ''.'' @ map toLower sid @ ''.temperature'', Prim Null)
            \<in> set (handled (effects (retrieveStationData_callback station r))))
     \<and> (value' bp = Null \<longrightarrow>
          (observationsKey @ ''.'' @ map toLower sid @ ''.pressure'', Prim Null)
            \<in> set (handled (effects (retrieveStationData_callback station r))))"
  using callback_published [OF assms] by (simp add: conversion_defs)

theorem null_value_is_published_as_null_witness:
  "returned (retrieveStationData_callback (sample_station ''KBOS'' (Num (- 71.03)) (Num 42.36))
      (ok_reply blank_observation))
   \<and> set (handled (effects
        (retrieveStationData_callback (sample_station ''KBOS'' (Num (- 71.03)) (Num 42.36))
          (ok_reply blank_observation))))
     \<supseteq> {(''observations.noaa.kbos.wind.speed'', Prim Null),
         (''observations.noaa.kbos.wind.gust'', Prim Null),
         (''observations.noaa.kbos.wind.direction'', Prim Null),
         (''observations.noaa.kbos.temperature'', Prim Null),
         (''observations.noaa.kbos.pressure'', Prim Null)}"
  using null_value_is_published_as_null
    [where r = "ok_reply blank_observation" and d = blank_observation
       and p = "the (properties blank_observation)"
       and g = "\<lparr>coordinates = Some [Num (- 71.03), Num 42.36]\<rparr>"
       and cs = "[Num (- 71.03), Num 42.36]"
       and t = "\<lparr>value' = Null\<rparr>" and wd = "\<lparr>value' = Null\<rparr>"
       and ws = "\<lparr>value' = Null\<rparr>" and wg = "\<lparr>value' = Null\<rparr>"
       and bp = "\<lparr>value' = Null\<rparr>"
       and station = "sample_station ''KBOS'' (Num (- 71.03)) (Num 42.36)"
       and sp = "\<lparr>name = Str ''Logan Airport'', stationIdentifier = Str ''KBOS''\<rparr>"
       and sid = "''KBOS''"]
  by (simp add: sample_defs lower_eval)

text \<open>C3 as stated fails when a field is absent from the payload: without the
  \<open>temperature\<close> object the callback raises a \<open>TypeError\<close>, and with a \<open>temperature\<close>
  object that has no \<open>value\<close> the published temperature is \<open>NaN\<close>, not \<open>null\<close>.\<close>

theorem absent_field_counterexample:
  "retrieveStationData_callback (sample_station ''KBOS'' (Num (- 71.03)) (Num 42.36))
     (ok_reply (sample_observation None)) = Threw [] TypeError
   \<and> (''observations.noaa.kbos.temperature'', Prim NaN) \<in> set (handled (effects
     (retrieveStationData_callback (sample_station ''KBOS'' (Num (- 71.03)) (Num 42.36))
       (ok_reply (sample_observation (Some \<lparr>value' = Undefined\<rparr>))))))"
  by (simp add: retrieveStationData_callback_def succeeded_ok sample_defs conversion_defs
      lower_eval)

text \<open>
  C8. When the request for a station's observation meets a transport error or a status
  other than 200, the callback of \<open>retrieveStationData\<close> logs one debug line and returns: it
  raises nothing and publishes nothing. The stations callback has requested every station
  within the limit; each request gets its own callback, so the failing station yields its
  debug line and every other requested station is handled with its own reply.
\<close>

theorem failed_station_is_logged_and_skipped:
  assumes "request_failed (observation_reply net station)"
    and "\<forall>s\<in>set stations. station_complete s"
  shows "retrieveStationData_callback station (observation_reply net station) =
           Returned [Debug (LogStationError (id' station @ ''/observations/latest'')
                      (response (observation_reply net station)))]
       \<and> replies rt net [retrieveObservations_loop rt lat lng stations] =
           map (\<lambda>s. if s = station
                    then Returned [Debug (LogStationError (id' station @ ''/observations/latest'')
                      (response (observation_reply net station)))]
                    else retrieveStationData_callback s (observation_reply net s))
             (filter (within_limit rt lat lng) stations)"
proof -
  have one: "retrieveStationData_callback station (observation_reply net station) =
           Returned [Debug (LogStationError (id' station @ ''/observations/latest'')
                      (response (observation_reply net station)))]"
    using assms(1) by (rule callback_failed)
  obtain effs where "retrieveObservations_loop rt lat lng stations = Returned effs"
    "\<forall>rt' net. concat (map (dispatch rt' net) effs) =
             map (\<lambda>s. retrieveStationData_callback s (observation_reply net s))
               (filter (within_limit rt lat lng) stations)"
    using loop_complete [OF assms(2), of rt lat lng] by blast
  then have "replies rt net [retrieveObservations_loop rt lat lng stations] =
      map (\<lambda>s. retrieveStationData_callback s (observation_reply net s))
               (filter (within_limit rt lat lng) stations)"
    by (simp add: replies_def)
  also have "\<dots> = map (\<lambda>s. if s = station
                    then Returned [Debug (LogStationError (id' station @ ''/observations/latest'')
                      (response (observation_reply net station)))]
                    else retrieveStationData_callback s (observation_reply net s))
             (filter (within_limit rt lat lng) stations)"
    using one by (intro map_cong) auto
  finally show ?thesis
    using one by simp
qed

theorem failed_station_is_logged_and_skipped_witness:
  "replies double_arithmetic sample_network
     [retrieveObservations_loop double_arithmetic (Num 0) (Num 0)
        [sample_station ''KPVD'' (Num 0) (Num 0), sample_station ''KBOS'' (Num 0) (Num 0),
         sample_station ''KORH'' (Num 0) (Num 0)]] =
   [retrieveStationData_callback (sample_station ''KPVD'' (Num 0) (Num 0))
      (ok_reply blank_observation),
    Returned [Debug (LogStationError
      ''https://api.weather.gov/stations/KBOS/observations/latest'' None)],
    retrieveStationData_callback (sample_station ''KORH'' (Num 0) (Num 0))
      (ok_reply blank_observation)]"
proof -
  have failed: "request_failed (observation_reply sample_network
      (sample_station ''KBOS'' (Num 0) (Num 0)))"
    by (simp add: sample_network_def sample_station_def)
  have complete: "\<forall>s\<in>set [sample_station ''KPVD'' (Num 0) (Num 0),
      sample_station ''KBOS'' (Num 0) (Num 0), sample_station ''KORH'' (Num 0) (Num 0)].
      station_complete s"
    by (simp add: station_complete_def sample_station_def)
  have near: "within_limit double_arithmetic (Num 0) (Num 0)
      (sample_station sid (Num 0) (Num 0))" for sid
    by (simp add: within_limit_def sample_station_def item_def distance_same js_le_def
        distanceLimit_def)
  show ?thesis
    using failed_station_is_logged_and_skipped
        [OF failed complete, where rt = double_arithmetic and lat = "Num 0" and lng = "Num 0"]
      near
    by (simp add: sample_network_def sample_station_def timeout_reply_def)
qed

section \<open>Properties of the stations callback\<close>

text \<open>
  C2. On a successful reply that lists complete stations, the stations callback returns and
  requests an observation for exactly the stations whose distance to the position, as the
  runtime computes it, is at most \<open>distanceLimit\<close>, which is 100, in the provider's order.
  On a transport error or a status other than 200 it logs one debug line, requests nothing
  and raises nothing.
\<close>

theorem retrieveObservations_filters_by_distance:
  "(request_ok r \<and> data r = Some doc \<and> features doc = Some stations
      \<and> (\<forall>s\<in>set stations. station_complete s)
     \<longrightarrow> returned (retrieveObservations_callback rt lat lng r)
         \<and> requested (effects (retrieveObservations_callback rt lat lng r))
             = filter (within_limit rt lat lng) stations)
   \<and> (request_failed r \<longrightarrow> retrieveObservations_callback rt lat lng r =
         Returned
           [Debug (LogStationsError ''Error retrieving stations ${JSON.stringify(response)}'')])
   \<and> distanceLimit = Num 100"
proof (intro conjI impI)
  assume a: "request_ok r \<and> data r = Some doc \<and> features doc = Some stations
      \<and> (\<forall>s\<in>set stations. station_complete s)"
  then obtain effs where "retrieveObservations_loop rt lat lng stations = Returned effs"
    "requested effs = filter (within_limit rt lat lng) stations"
    using loop_complete [of stations rt lat lng] by blast
  with a show "returned (retrieveObservations_callback rt lat lng r)"
    "requested (effects (retrieveObservations_callback rt lat lng r))
             = filter (within_limit rt lat lng) stations"
    by (simp_all add: retrieveObservations_callback_def succeeded_ok)
next
  assume "request_failed r"
  then show "retrieveObservations_callback rt lat lng r =
         Returned
           [Debug (LogStationsError ''Error retrieving stations ${JSON.stringify(response)}'')]"
    by (simp add: retrieveObservations_callback_def succeeded_failed)
qed (simp add: distanceLimit_def)

theorem retrieveObservations_filters_by_distance_witness:
  "requested (effects (retrieveObservations_callback exact_arithmetic (Num 0) (Num 0)
      (ok_reply \<lparr>features = Some
         [sample_station ''EAST'' (Num 1) (Num 0), sample_station ''FAR'' (Num 180) (Num 0),
          sample_station ''HERE'' (Num 0) (Num 0)]\<rparr>)))
     = [sample_station ''EAST'' (Num 1) (Num 0), sample_station ''HERE'' (Num 0) (Num 0)]
   \<and> retrieveObservations_callback exact_arithmetic (Num 0) (Num 0) timeout_reply =
       Returned
         [Debug (LogStationsError ''Error retrieving stations ${JSON.stringify(response)}'')]
   \<and> retrieveObservations_callback exact_arithmetic (Num 0) (Num 0) unavailable_reply =
       Returned
         [Debug (LogStationsError ''Error retrieving stations ${JSON.stringify(response)}'')]"
proof -
  have east: "within_limit exact_arithmetic (Num 0) (Num 0) (sample_station ''EAST'' (Num 1) (Num 0))"
    by (simp add: within_limit_def sample_station_def item_def distance_one_degree js_le_def
        distanceLimit_def)
  have far: "\<not> within_limit exact_arithmetic (Num 0) (Num 0) (sample_station ''FAR'' (Num 180) (Num 0))"
    by (simp add: within_limit_def sample_station_def item_def distance_antipode js_le_def
        distanceLimit_def)
  have here: "within_limit exact_arithmetic (Num 0) (Num 0) (sample_station ''HERE'' (Num 0) (Num 0))"
    by (simp add: within_limit_def sample_station_def item_def distance_same js_le_def
        distanceLimit_def)
  have complete: "station_complete (sample_station sid lon lat)" for sid lon lat
    by (simp add: station_complete_def sample_station_def)
  show ?thesis
    using east far here complete
      retrieveObservations_filters_by_distance
        [of "ok_reply \<lparr>features = Some
         [sample_station ''EAST'' (Num 1) (Num 0), sample_station ''FAR'' (Num 180) (Num 0),
          sample_station ''HERE'' (Num 0) (Num 0)]\<rparr>"
          "\<lparr>features = Some
         [sample_station ''EAST'' (Num 1) (Num 0), sample_station ''FAR'' (Num 180) (Num 0),
          sample_station ''HERE'' (Num 0) (Num 0)]\<rparr>"
          "[sample_station ''EAST'' (Num 1) (Num 0), sample_station ''FAR'' (Num 180) (Num 0),
          sample_station ''HERE'' (Num 0) (Num 0)]" exact_arithmetic "Num 0" "Num 0"]
      retrieveObservations_filters_by_distance
        [of "timeout_reply :: stations_document reply" _ _ exact_arithmetic "Num 0" "Num 0"]
      retrieveObservations_filters_by_distance
        [of "unavailable_reply :: stations_document reply" _ _ exact_arithmetic "Num 0" "Num 0"]
    by simp
qed

section \<open>Properties of the timer's call\<close>

text \<open>
  C9. When \<open>app.getSelfPath\<close> yields no position, \<open>checkAndPublishObservations\<close> logs one
  debug line and returns: it raises nothing and issues no request, so the whole cycle
  consists of that log line.
\<close>

theorem missing_position_skips_cycle:
  "checkAndPublishObservations None = Returned [Debug (LogPosition None)]
   \<and> cycle rt net None = [Returned [Debug (LogPosition None)]]"
  by (simp add: checkAndPublishObservations_def cycle_def replies_def)

text \<open>
  C10. The availability check looks at the position object only. For a position object
  without a \<open>value\<close> the cycle is not skipped: reading the latitude raises a \<open>TypeError\<close>,
  before anything is logged or requested.
\<close>

theorem position_without_value_raises:
  "checkAndPublishObservations (Some \<lparr>value' = None\<rparr>) = Threw [] TypeError
   \<and> checkAndPublishObservations (Some \<lparr>value' = None\<rparr>)
       \<noteq> Returned [Debug (LogPosition (Some \<lparr>value' = None\<rparr>))]"
  by (simp add: checkAndPublishObservations_def)

end
